theory Spec2Isabelle
  imports Complex_Main
begin

section \<open>Python and pandas values\<close>

text \<open>
  The numbers of the program are IEEE doubles. They are modelled as real numbers, so
  rounding and overflow are outside the model, together with the three special values the
  program produces or reads on purpose: \<^verbatim>\<open>float('inf')\<close> (the runway of a company that
  burns no cash), its negation, and NaN (the sample standard deviation of a one-record
  series, and missing cells of the analysed table). Signed zeros are not modelled.
\<close>

datatype pyfloat = Num real | PInf | NInf | NaN

text \<open>Comparisons: every comparison with NaN is false, except \<^verbatim>\<open>!=\<close>.\<close>

fun py_lt :: "pyfloat \<Rightarrow> pyfloat \<Rightarrow> bool" where
  "py_lt (Num a) (Num b) = (a < b)"
| "py_lt (Num a) PInf = True"
| "py_lt NInf (Num b) = True"
| "py_lt NInf PInf = True"
| "py_lt _ _ = False"

fun py_eq :: "pyfloat \<Rightarrow> pyfloat \<Rightarrow> bool" where
  "py_eq (Num a) (Num b) = (a = b)"
| "py_eq PInf PInf = True"
| "py_eq NInf NInf = True"
| "py_eq _ _ = False"

definition py_gt :: "pyfloat \<Rightarrow> pyfloat \<Rightarrow> bool" where
  "py_gt a b = py_lt b a"

definition py_le :: "pyfloat \<Rightarrow> pyfloat \<Rightarrow> bool" where
  "py_le a b = (py_lt a b \<or> py_eq a b)"

definition py_ge :: "pyfloat \<Rightarrow> pyfloat \<Rightarrow> bool" where
  "py_ge a b = py_le b a"

definition py_ne :: "pyfloat \<Rightarrow> pyfloat \<Rightarrow> bool" where
  "py_ne a b = (\<not> py_eq a b)"

definition isna :: "pyfloat \<Rightarrow> bool" where
  "isna a = (a = NaN)"

text \<open>
  Python's builtin \<^verbatim>\<open>max(a, b)\<close> keeps \<^verbatim>\<open>a\<close> unless \<^verbatim>\<open>b > a\<close>, and
  \<^verbatim>\<open>min(a, b)\<close> keeps \<^verbatim>\<open>a\<close> unless \<^verbatim>\<open>b < a\<close>; so \<^verbatim>\<open>max(0, nan)\<close> is 0.
\<close>

definition py_max :: "pyfloat \<Rightarrow> pyfloat \<Rightarrow> pyfloat" where
  "py_max a b = (if py_gt b a then b else a)"

definition py_min :: "pyfloat \<Rightarrow> pyfloat \<Rightarrow> pyfloat" where
  "py_min a b = (if py_lt b a then b else a)"

text \<open>Arithmetic: NaN propagates; \<open>\<infinity> - \<infinity>\<close>, \<open>0 \<times> \<infinity>\<close>, \<open>\<infinity> / \<infinity>\<close> and \<open>0 / 0\<close> are NaN.\<close>

fun py_neg :: "pyfloat \<Rightarrow> pyfloat" where
  "py_neg (Num a) = Num (- a)"
| "py_neg PInf = NInf"
| "py_neg NInf = PInf"
| "py_neg NaN = NaN"

fun py_add :: "pyfloat \<Rightarrow> pyfloat \<Rightarrow> pyfloat" where
  "py_add (Num a) (Num b) = Num (a + b)"
| "py_add NaN _ = NaN"
| "py_add _ NaN = NaN"
| "py_add PInf NInf = NaN"
| "py_add NInf PInf = NaN"
| "py_add PInf _ = PInf"
| "py_add _ PInf = PInf"
| "py_add NInf _ = NInf"
| "py_add _ NInf = NInf"

definition py_sub :: "pyfloat \<Rightarrow> pyfloat \<Rightarrow> pyfloat" where
  "py_sub a b = py_add a (py_neg b)"

fun py_sign :: "pyfloat \<Rightarrow> real" where
  "py_sign (Num a) = sgn a"
| "py_sign PInf = 1"
| "py_sign NInf = - 1"
| "py_sign NaN = 0"

definition signed_inf :: "real \<Rightarrow> pyfloat" where
  "signed_inf s = (if s = 0 then NaN else if 0 < s then PInf else NInf)"

fun py_mul :: "pyfloat \<Rightarrow> pyfloat \<Rightarrow> pyfloat" where
  "py_mul (Num a) (Num b) = Num (a * b)"
| "py_mul NaN _ = NaN"
| "py_mul _ NaN = NaN"
| "py_mul a b = signed_inf (py_sign a * py_sign b)"

text \<open>
  Division of numpy doubles: a zero divisor gives an infinity or NaN (with a warning, no
  exception); a finite number divided by an infinity is 0.
\<close>

fun py_div :: "pyfloat \<Rightarrow> pyfloat \<Rightarrow> pyfloat" where
  "py_div (Num a) (Num b) = (if b = 0 then signed_inf (sgn a) else Num (a / b))"
| "py_div NaN _ = NaN"
| "py_div _ NaN = NaN"
| "py_div (Num a) _ = Num 0"
| "py_div a (Num b) = signed_inf (py_sign a * (if b < 0 then - 1 else 1))"
| "py_div _ _ = NaN"

text \<open>
  \<^verbatim>\<open>Series.iloc[i]\<close>: positional access, negative positions count from the end, a
  position out of range raises \<^verbatim>\<open>IndexError\<close>.
\<close>

datatype py_error = IndexError

definition iloc :: "'a list \<Rightarrow> int \<Rightarrow> py_error + 'a" where
  "iloc xs i =
     (let n = int (length xs) in
      if 0 \<le> i \<and> i < n then Inr (xs ! nat i)
      else if - n \<le> i \<and> i < 0 then Inr (xs ! nat (n + i))
      else Inl IndexError)"

text \<open>
  \<^verbatim>\<open>Series.mean()\<close> and \<^verbatim>\<open>Series.std()\<close> of a column without missing cells. The
  standard deviation of pandas is the sample one (\<^verbatim>\<open>ddof=1\<close>): it is NaN when the series
  has fewer than two entries. The mean of an empty series is NaN.
\<close>

definition series_mean :: "real list \<Rightarrow> pyfloat" where
  "series_mean xs =
     (if length xs = 0 then NaN else Num (sum_list xs / real (length xs)))"

definition series_std :: "real list \<Rightarrow> pyfloat" where
  "series_std xs =
     (if length xs < 2 then NaN
      else let m = sum_list xs / real (length xs) in
        Num (sqrt (sum_list (map (\<lambda>x. (x - m) ^ 2) xs) / real (length xs - 1))))"

text \<open>
  \<^verbatim>\<open>Series.diff().dropna()\<close>: the month-over-month deltas; the first entry of
  \<^verbatim>\<open>diff()\<close> is NaN and is dropped, so a series of \<open>n\<close> entries has \<open>n - 1\<close> deltas.
\<close>

fun diff_dropna :: "real list \<Rightarrow> real list" where
  "diff_dropna (x # y # ys) = (y - x) # diff_dropna (y # ys)"
| "diff_dropna _ = []"

text \<open>Python string literals with a non-ASCII letter, as their UTF-8 bytes.\<close>

abbreviation str_Media :: string where
  "str_Media \<equiv> ''M'' @ [CHR 0xC3, CHR 0xA9] @ ''dia''"

abbreviation str_Declinio :: string where
  "str_Declinio \<equiv> ''Decl'' @ [CHR 0xC3, CHR 0xAD] @ ''nio''"

abbreviation str_Declinio_Persistente :: string where
  "str_Declinio_Persistente \<equiv> ''Decl'' @ [CHR 0xC3, CHR 0xAD] @ ''nio Persistente''"

abbreviation str_Tendencias :: string where
  "str_Tendencias \<equiv> ''Tend'' @ [CHR 0xC3, CHR 0xAA] @ ''ncias''"

section \<open>The tables\<close>

text \<open>
  A data frame is the list of its rows, in the frame's order. \<^verbatim>\<open>df_infos\<close> has one row
  per company and month, \<^verbatim>\<open>df_transacoes\<close> one row per transaction. Company
  identifiers are only compared, so any type with equality and an order (for
  \<^verbatim>\<open>groupby\<close>, which lists its groups by ascending key) serves; natural numbers are used.
\<close>

record info_row =
  ID :: nat
  VL_SLDO :: real
  VL_FATU :: real

record transacao_row =
  ID_PGTO :: nat
  ID_RCBE :: nat
  VL :: real

text \<open>\<^verbatim>\<open>frame.groupby(key)['VL'].sum().values\<close>: one sum per key, keys ascending.\<close>

definition groupby_sum :: "(transacao_row \<Rightarrow> nat) \<Rightarrow> transacao_row list \<Rightarrow> real list" where
  "groupby_sum key frame =
     map (\<lambda>k. sum_list (map VL (filter (\<lambda>t. key t = k) frame)))
       (sort (remdups (map key frame)))"

section \<open>Concentration index\<close>


text \<open>
  \<^verbatim>\<open>calculate_hhi\<close> is a local function of \<^verbatim>\<open>calcular_risco_dependencia\<close> and of
  \<^verbatim>\<open>calcular_score_santander\<close> (dashboard\_novo.py) and of the context builder of
  rag\_system.py; the three texts are identical:
  \<^verbatim>\<open>
    def calculate_hhi(values):
        if len(values) == 0:
            return 0
        total = sum(values)
        if total == 0:
            return 0
        return sum((v/total)**2 for v in values)
  \<close>
  The values are floating-point numbers; they are modelled as real numbers, so rounding
  and overflow are outside the model. Python's \<^verbatim>\<open>sum\<close> adds from the left starting
  at 0, which over the reals is \<^const>\<open>sum_list\<close>.
\<close>

definition calculate_hhi :: "real list \<Rightarrow> real" where
  "calculate_hhi values =
     (if length values = 0 then 0
      else let total = sum_list values in
        if total = 0 then 0
        else sum_list (map (\<lambda>v. (v / total) ^ 2) values))"

section \<open>Quantities shared by the scorers\<close>

text \<open>
  The three scorers of dashboard\_novo.py repeat the same expressions on the balance
  column \<^verbatim>\<open>dados_cnpj['VL_SLDO']\<close>; each is defined once here under the name of the
  variable it is assigned to.
  \<^verbatim>\<open>
    crescimento = ((saldo_atual - saldo_inicial) / abs(saldo_inicial)) * 100 if saldo_inicial != 0 else 0
    cv_saldo = dados_cnpj['VL_SLDO'].std() / dados_cnpj['VL_SLDO'].mean() if dados_cnpj['VL_SLDO'].mean() != 0 else 1
    deltas = dados_cnpj['VL_SLDO'].diff().dropna()
    burn_rate = abs(deltas[deltas < 0].mean()) if len(deltas[deltas < 0]) > 0 else 0
    runway = saldo_atual / burn_rate if burn_rate > 0 else float('inf')
  \<close>
\<close>

definition crescimento_saldo :: "real \<Rightarrow> real \<Rightarrow> real" where
  "crescimento_saldo saldo_inicial saldo_final =
     (if saldo_inicial \<noteq> 0
      then ((saldo_final - saldo_inicial) / \<bar>saldo_inicial\<bar>) * 100
      else 0)"

definition cv_saldo :: "real list \<Rightarrow> pyfloat" where
  "cv_saldo saldos =
     (if py_ne (series_mean saldos) (Num 0)
      then py_div (series_std saldos) (series_mean saldos)
      else Num 1)"

fun py_abs :: "pyfloat \<Rightarrow> pyfloat" where
  "py_abs (Num a) = Num \<bar>a\<bar>"
| "py_abs PInf = PInf"
| "py_abs NInf = PInf"
| "py_abs NaN = NaN"

definition burn_rate :: "real list \<Rightarrow> pyfloat" where
  "burn_rate deltas =
     (if length (filter (\<lambda>d. d < 0) deltas) > 0
      then py_abs (series_mean (filter (\<lambda>d. d < 0) deltas))
      else Num 0)"

definition runway :: "real \<Rightarrow> pyfloat \<Rightarrow> pyfloat" where
  "runway saldo_atual burn =
     (if py_gt burn (Num 0) then py_div (Num saldo_atual) burn else PInf)"

section \<open>Life stage\<close>

definition calcular_momento_vida :: "info_row list \<Rightarrow> nat \<Rightarrow> py_error + (string \<times> int)" where
  "calcular_momento_vida df_infos cnpj_selecionado =
     (let dados_cnpj = filter (\<lambda>r. ID r = cnpj_selecionado) df_infos in
      if length dados_cnpj = 0 then Inr (''N/A'', 0)
      else
        let idade_meses = length dados_cnpj in
        case iloc (map VL_SLDO dados_cnpj) 0 of
          Inl e \<Rightarrow> Inl e
        | Inr saldo_inicial \<Rightarrow>
        (case iloc (map VL_SLDO dados_cnpj) (- 1) of
          Inl e \<Rightarrow> Inl e
        | Inr saldo_final \<Rightarrow>
          let crescimento = crescimento_saldo saldo_inicial saldo_final;
              cv = cv_saldo (map VL_SLDO dados_cnpj)
          in
            if idade_meses \<le> 2 then Inr (''Iniciante'', 20)
            else if crescimento > 20 \<and> py_lt cv (Num 0.3) then Inr (''Desenvolvimento'', 80)
            else if crescimento > 0 \<and> py_lt cv (Num 0.5) then Inr (''Madura'', 60)
            else if crescimento < - 10 then Inr (str_Declinio, 20)
            else Inr (''Madura'', 50)))"

section \<open>Health score\<close>

text \<open>
  \<^verbatim>\<open>score_estabilidade = min(100, max(0, 100 - (cv_saldo * 100)))\<close> and the trend
  sub-score
  \<^verbatim>\<open>
    if len(dados_cnpj) > 1:
        deltas = dados_cnpj['VL_SLDO'].diff().dropna()
        meses_positivos = len(deltas[deltas > 0])
        score_tendencia = (meses_positivos / len(deltas)) * 100
    else:
        score_tendencia = 50
  \<close>
\<close>

definition score_estabilidade :: "pyfloat \<Rightarrow> pyfloat" where
  "score_estabilidade cv =
     py_min (Num 100) (py_max (Num 0) (py_sub (Num 100) (py_mul cv (Num 100))))"

definition score_tendencia :: "real list \<Rightarrow> real" where
  "score_tendencia saldos =
     (if length saldos > 1
      then let deltas = diff_dropna saldos;
               meses_positivos = length (filter (\<lambda>d. d > 0) deltas)
           in (real meses_positivos / real (length deltas)) * 100
      else 50)"

definition calcular_saude_empresa ::
  "info_row list \<Rightarrow> transacao_row list \<Rightarrow> nat \<Rightarrow> py_error + (pyfloat \<times> string)" where
  "calcular_saude_empresa df_infos df_transacoes cnpj_selecionado =
     (let dados_cnpj = filter (\<lambda>r. ID r = cnpj_selecionado) df_infos in
      if length dados_cnpj = 0 then Inr (Num 0, ''N/A'')
      else
        case iloc (map VL_SLDO dados_cnpj) (- 1) of
          Inl e \<Rightarrow> Inl e
        | Inr saldo_atual \<Rightarrow>
        (case iloc (map VL_SLDO dados_cnpj) 0 of
          Inl e \<Rightarrow> Inl e
        | Inr saldo_inicial \<Rightarrow>
          let crescimento = crescimento_saldo saldo_inicial saldo_atual;
              score_crescimento = min 100 (max 0 (50 + crescimento * 2));
              score_estab = score_estabilidade (cv_saldo (map VL_SLDO dados_cnpj))
          in
          (case iloc (map VL_FATU dados_cnpj) 0 of
            Inl e \<Rightarrow> Inl e
          | Inr faturamento \<Rightarrow>
            let ratio_saldo_fatu =
                  (if faturamento \<noteq> 0 then (saldo_atual / faturamento) * 100 else 0);
                score_posicao = min 100 (max 0 (ratio_saldo_fatu * 0.5));
                score_tend = score_tendencia (map VL_SLDO dados_cnpj);
                score_final =
                  py_min (Num 100) (py_max (Num 0)
                    (py_add (py_add (py_add (Num (score_crescimento * 0.3))
                                            (py_mul score_estab (Num 0.25)))
                                    (Num (score_posicao * 0.25)))
                            (Num (score_tend * 0.2))));
                categoria =
                  (if py_ge score_final (Num 80) then ''Alta''
                   else if py_ge score_final (Num 60) then str_Media
                   else ''Baixa'')
            in Inr (score_final, categoria))))"

section \<open>Credit score\<close>

text \<open>The five ladders of \<^verbatim>\<open>calcular_score_santander\<close>, each an if/elif chain.\<close>

definition score_liquidez :: "real \<Rightarrow> pyfloat \<Rightarrow> int" where
  "score_liquidez saldo_atual rw =
     (if saldo_atual > 0 \<and> py_gt rw (Num 12) then 20
      else if saldo_atual > 0 \<and> py_gt rw (Num 6) then 15
      else if saldo_atual > 0 \<and> py_gt rw (Num 3) then 10
      else if saldo_atual > 0 then 5
      else 0)"

definition score_relacionamentos :: "nat \<Rightarrow> real \<Rightarrow> int" where
  "score_relacionamentos num_relacionamentos hhi_medio =
     (if num_relacionamentos > 20 \<and> hhi_medio < 0.3 then 20
      else if num_relacionamentos > 15 \<and> hhi_medio < 0.5 then 15
      else if num_relacionamentos > 10 \<and> hhi_medio < 0.7 then 10
      else if num_relacionamentos > 5 then 5
      else 0)"

definition score_tendencias :: "real \<Rightarrow> real \<Rightarrow> pyfloat \<Rightarrow> int" where
  "score_tendencias variacao_saldo saldo_atual cv =
     (if variacao_saldo > 0 \<and> py_lt cv (Num 0.2) then 20
      else if variacao_saldo > 0 \<and> py_lt cv (Num 0.4) then 15
      else if variacao_saldo > 0 then 10
      else if variacao_saldo > (- saldo_atual) * 0.1 then 5
      else 0)"

definition score_atividade :: "real \<Rightarrow> nat \<Rightarrow> int" where
  "score_atividade volume_total idade_meses =
     (if volume_total > 1000000 \<and> idade_meses \<ge> 4 then 20
      else if volume_total > 500000 \<and> idade_meses \<ge> 3 then 15
      else if volume_total > 100000 \<and> idade_meses \<ge> 2 then 10
      else if volume_total > 0 then 5
      else 0)"

definition score_risco :: "real \<Rightarrow> pyfloat \<Rightarrow> pyfloat \<Rightarrow> int" where
  "score_risco saldo_atual burn cv =
     (if saldo_atual > 0 \<and> py_lt burn (Num (saldo_atual * 0.1)) \<and> py_lt cv (Num 0.3) then 20
      else if saldo_atual > 0 \<and> py_lt burn (Num (saldo_atual * 0.2)) \<and> py_lt cv (Num 0.5) then 15
      else if saldo_atual > 0 \<and> py_lt burn (Num (saldo_atual * 0.3)) then 10
      else if saldo_atual > 0 then 5
      else 0)"

text \<open>
  The second component of the result is a Python object: the dictionary
  \<^verbatim>\<open>detalhamento\<close> (keys in insertion order), and \<^verbatim>\<open>{}\<close> for an unknown company.
\<close>

datatype pyobj = PyStr string | PyDict "(string \<times> int) list"

definition calcular_score_santander ::
  "info_row list \<Rightarrow> transacao_row list \<Rightarrow> nat \<Rightarrow> py_error + (int \<times> pyobj)" where
  "calcular_score_santander df_infos df_transacoes cnpj_selecionado =
     (let dados_cnpj = filter (\<lambda>r. ID r = cnpj_selecionado) df_infos in
      if length dados_cnpj = 0 then Inr (0, PyDict [])
      else
        let idade_meses = length dados_cnpj in
        case iloc (map VL_SLDO dados_cnpj) (- 1) of
          Inl e \<Rightarrow> Inl e
        | Inr saldo_atual \<Rightarrow>
        (case iloc (map VL_SLDO dados_cnpj) 0 of
          Inl e \<Rightarrow> Inl e
        | Inr saldo_inicial \<Rightarrow>
          let variacao_saldo = saldo_atual - saldo_inicial;
              deltas = diff_dropna (map VL_SLDO dados_cnpj);
              burn = burn_rate deltas;
              rw = runway saldo_atual burn;
              pagamentos = filter (\<lambda>t. ID_PGTO t = cnpj_selecionado) df_transacoes;
              recebimentos = filter (\<lambda>t. ID_RCBE t = cnpj_selecionado) df_transacoes;
              hhi_pagamento = calculate_hhi (groupby_sum ID_RCBE pagamentos);
              hhi_recebimento = calculate_hhi (groupby_sum ID_PGTO recebimentos);
              hhi_medio = (hhi_pagamento + hhi_recebimento) / 2;
              num_relacionamentos =
                length (remdups (map ID_RCBE pagamentos @ map ID_PGTO recebimentos));
              volume_total = sum_list (map VL pagamentos) + sum_list (map VL recebimentos);
              cv = cv_saldo (map VL_SLDO dados_cnpj);
              s_liquidez = score_liquidez saldo_atual rw;
              s_relacionamentos = score_relacionamentos num_relacionamentos hhi_medio;
              s_tendencias = score_tendencias variacao_saldo saldo_atual cv;
              s_atividade = score_atividade volume_total idade_meses;
              s_risco = score_risco saldo_atual burn cv;
              score_total =
                s_liquidez + s_relacionamentos + s_tendencias + s_atividade + s_risco;
              detalhamento = PyDict
                [(''Liquidez'', s_liquidez),
                 (''Relacionamentos'', s_relacionamentos),
                 (str_Tendencias, s_tendencias),
                 (''Atividade'', s_atividade),
                 (''Risco'', s_risco),
                 (''Total'', score_total)]
          in Inr (score_total, detalhamento)))"

section \<open>Liquidity indicators of the company page\<close>

text \<open>
  The block of the company page that runs when the analysed table has no row for the
  company and \<^verbatim>\<open>len(dados_saldo) > 0\<close>; \<^verbatim>\<open>dados_saldo['Delta']\<close> is
  \<^verbatim>\<open>VL_SLDO.diff()\<close> (visualizacoes\_avancadas.py). The model takes the balance column
  of \<^verbatim>\<open>dados_saldo\<close> and returns the three variables the block computes.
  \<^verbatim>\<open>
    saldo_atual = dados_saldo['VL_SLDO'].iloc[-1]
    deltas = dados_saldo['Delta'].dropna()
    burn_rate_mes = abs(deltas[deltas < 0].mean()) if len(deltas[deltas < 0]) > 0 else 0
    runway_meses = saldo_atual / burn_rate_mes if burn_rate_mes > 0 else float('inf')
    flag_stress_caixa = (
        saldo_atual < 0 or
        runway_meses < 3 or
        burn_rate_mes > saldo_atual * 0.5
    )
  \<close>
\<close>

definition indicadores_liquidez :: "real list \<Rightarrow> py_error + (pyfloat \<times> pyfloat \<times> bool)" where
  "indicadores_liquidez saldos =
     (case iloc saldos (- 1) of
        Inl e \<Rightarrow> Inl e
      | Inr saldo_atual \<Rightarrow>
        let deltas = diff_dropna saldos;
            burn_rate_mes = burn_rate deltas;
            runway_mes = runway saldo_atual burn_rate_mes;
            flag =
              (saldo_atual < 0 \<or>
               py_lt runway_mes (Num 3) \<or>
               py_gt burn_rate_mes (Num (saldo_atual * 0.5)))
        in Inr (burn_rate_mes, runway_mes, flag))"

section \<open>Portfolio cohorts\<close>

text \<open>
  The rows of \<^verbatim>\<open>Base_Analisada.csv\<close>, with the columns the two filters of
  \<^verbatim>\<open>dashboard_geral\<close> read. The thresholds \<^verbatim>\<open>q25_health\<close> and \<^verbatim>\<open>q75_risk\<close> are
  columns of the table: the program reads them and does not compute them. A missing cell
  of a numeric column is NaN.
\<close>

record analisada_row =
  MES :: int
  score_saude_model_0_100_lgbm :: pyfloat
  q25_health :: pyfloat
  score_dependencia_risco_0_100 :: pyfloat
  q75_risk :: pyfloat
  runway_meses :: pyfloat
  flag_stress_caixa :: pyfloat
  grow_volume_total_mes :: pyfloat
  estado_maturidade_hard :: string

definition ultimo_mes_data :: "analisada_row list \<Rightarrow> analisada_row list" where
  "ultimo_mes_data df_analisada =
     (if df_analisada = [] then []
      else filter (\<lambda>r. MES r = Max (set (map MES df_analisada))) df_analisada)"

definition empresas_ideais :: "analisada_row list \<Rightarrow> analisada_row list" where
  "empresas_ideais df_analisada =
     filter (\<lambda>r.
        py_ge (score_saude_model_0_100_lgbm r) (q25_health r) \<and>
        py_lt (score_dependencia_risco_0_100 r) (q75_risk r) \<and>
        py_ge (runway_meses r) (Num 1) \<and>
        py_eq (flag_stress_caixa r) (Num 0) \<and>
        py_gt (grow_volume_total_mes r) (Num 0) \<and>
        estado_maturidade_hard r \<in> set [''Madura'', ''Desenvolvimento''])
       (ultimo_mes_data df_analisada)"

definition empresas_perigosas :: "analisada_row list \<Rightarrow> analisada_row list" where
  "empresas_perigosas df_analisada =
     filter (\<lambda>r.
        py_le (score_saude_model_0_100_lgbm r) (q25_health r) \<and>
        py_ge (score_dependencia_risco_0_100 r) (q75_risk r) \<and>
        (py_lt (runway_meses r) (Num 3) \<or> isna (runway_meses r)) \<and>
        py_eq (flag_stress_caixa r) (Num 1) \<and>
        py_lt (grow_volume_total_mes r) (Num 0) \<and>
        estado_maturidade_hard r \<in> set [str_Declinio, str_Declinio_Persistente])
       (ultimo_mes_data df_analisada)"

section \<open>The formulas of the specification\<close>

text \<open>
  The quantities the specification names, over real numbers and following its words, to be
  compared with what the program computes. Growth is a percentage (the ratio times 100,
  as the thresholds 20 and -10 and the scenario "growth of about 21 percent" require);
  the standard deviation is the sample one.
\<close>

definition clip_0_100 :: "real \<Rightarrow> real" where
  "clip_0_100 x = min 100 (max 0 x)"

definition spec_growth_pct :: "real list \<Rightarrow> real" where
  "spec_growth_pct balances =
     (if hd balances = 0 then 0
      else (last balances - hd balances) / \<bar>hd balances\<bar> * 100)"

definition spec_mean :: "real list \<Rightarrow> real" where
  "spec_mean balances = sum_list balances / real (length balances)"

definition spec_std :: "real list \<Rightarrow> real" where
  "spec_std balances =
     sqrt (sum_list (map (\<lambda>x. (x - spec_mean balances) ^ 2) balances)
           / real (length balances - 1))"

definition spec_cv :: "real list \<Rightarrow> real" where
  "spec_cv balances =
     (if spec_mean balances = 0 then 1 else spec_std balances / spec_mean balances)"

definition spec_trend :: "real list \<Rightarrow> real" where
  "spec_trend balances =
     (if length balances < 2 then 50
      else 100 * real (length (filter (\<lambda>d. 0 < d) (diff_dropna balances)))
           / real (length (diff_dropna balances)))"

definition spec_balance_position :: "real \<Rightarrow> real \<Rightarrow> real" where
  "spec_balance_position balance revenue =
     (if revenue = 0 then 0 else clip_0_100 ((balance / revenue * 100) * 0.5))"

definition spec_health_category :: "real \<Rightarrow> string" where
  "spec_health_category score =
     (if score \<ge> 80 then ''Alta'' else if score \<ge> 60 then str_Media else ''Baixa'')"

definition spec_life_stage :: "nat \<Rightarrow> real \<Rightarrow> real \<Rightarrow> string \<times> int" where
  "spec_life_stage age_months growth_pct cv =
     (if age_months \<le> 2 then (''Iniciante'', 20)
      else if growth_pct > 20 \<and> cv < 0.3 then (''Desenvolvimento'', 80)
      else if growth_pct > 0 \<and> cv < 0.5 then (''Madura'', 60)
      else if growth_pct < - 10 then (str_Declinio, 20)
      else (''Madura'', 50))"

text \<open>A priority ladder: the value of the first rule whose condition holds, else 0.\<close>

fun first_tier :: "(bool \<times> int) list \<Rightarrow> int" where
  "first_tier [] = 0"
| "first_tier ((c, v) # rules) = (if c then v else first_tier rules)"

section \<open>Auxiliary facts\<close>

subsection \<open>Facts about sums of squares\<close>

lemma sum_list_squares_le:
  fixes xs :: "real list"
  assumes "\<And>x. x \<in> set xs \<Longrightarrow> 0 \<le> x"
  shows "sum_list (map (\<lambda>x. x ^ 2) xs) \<le> (sum_list xs) ^ 2"
  using assms
proof (induction xs)
  case Nil
  then show ?case by simp
next
  case (Cons a xs)
  have a: "0 \<le> a" using Cons.prems by simp
  have s: "0 \<le> sum_list xs" using Cons.prems by (simp add: sum_list_nonneg)
  have ih: "sum_list (map (\<lambda>x. x ^ 2) xs) \<le> (sum_list xs) ^ 2"
    using Cons by simp
  have "0 \<le> 2 * a * sum_list xs" using a s by simp
  then have "a ^ 2 + (sum_list xs) ^ 2 \<le> (a + sum_list xs) ^ 2"
    by (simp add: power2_sum)
  with ih show ?case by simp
qed

lemma sum_list_div_squares:
  fixes xs :: "real list"
  shows "sum_list (map (\<lambda>v. (v / t) ^ 2) xs) = sum_list (map (\<lambda>x. x ^ 2) xs) / t ^ 2"
  by (induction xs) (simp_all add: power_divide add_divide_distrib)

lemma hhi_sum_nonneg:
  fixes xs :: "real list"
  shows "0 \<le> sum_list (map (\<lambda>v. (v / t) ^ 2) xs)"
  by (rule sum_list_nonneg) auto

lemma hhi_sum_le_1:
  fixes xs :: "real list"
  assumes pos: "\<And>x. x \<in> set xs \<Longrightarrow> 0 \<le> x" and t: "sum_list xs \<noteq> 0"
  shows "sum_list (map (\<lambda>v. (v / sum_list xs) ^ 2) xs) \<le> 1"
proof -
  have "sum_list (map (\<lambda>x. x ^ 2) xs) \<le> (sum_list xs) ^ 2"
    using pos by (rule sum_list_squares_le)
  moreover have "0 < (sum_list xs) ^ 2" using t by simp
  ultimately have "sum_list (map (\<lambda>x. x ^ 2) xs) / (sum_list xs) ^ 2 \<le> 1"
    by simp
  then show ?thesis by (simp only: sum_list_div_squares)
qed

lemma sum_list_scale:
  fixes xs :: "real list"
  shows "sum_list (map (\<lambda>v. c * v) xs) = c * sum_list xs"
  by (induction xs) (simp_all add: algebra_simps)

subsection \<open>Positional access, burn rate and runway\<close>

lemma iloc_first: "xs \<noteq> [] \<Longrightarrow> iloc xs 0 = Inr (hd xs)"
  by (cases xs) (simp_all add: iloc_def)

lemma iloc_last: "xs \<noteq> [] \<Longrightarrow> iloc xs (- 1) = Inr (last xs)"
  by (cases xs rule: rev_cases) (simp_all add: iloc_def Let_def nth_append)

lemma abs_sum_list_negative:
  fixes xs :: "real list"
  assumes "\<And>x. x \<in> set xs \<Longrightarrow> x < 0"
  shows "\<bar>sum_list xs\<bar> = sum_list (map abs xs)"
proof -
  have "sum_list (map abs xs) = - sum_list xs"
    using assms by (induction xs) (simp_all add: less_imp_le)
  moreover have "sum_list xs \<le> 0"
    using assms by (intro sum_list_nonpos) (simp add: less_imp_le)
  ultimately show ?thesis by simp
qed

lemma sum_list_abs_negative_pos:
  fixes xs :: "real list"
  assumes "\<And>x. x \<in> set xs \<Longrightarrow> x < 0" and "xs \<noteq> []"
  shows "0 < sum_list (map abs xs)"
proof (cases xs)
  case Nil
  with assms show ?thesis by simp
next
  case (Cons a ys)
  have "0 < \<bar>a\<bar>" using assms(1) [of a] Cons by simp
  moreover have "0 \<le> sum_list (map abs ys)" by (rule sum_list_nonneg) auto
  ultimately show ?thesis using Cons by simp
qed

lemma burn_rate_Num:
  "burn_rate ds = Num (if filter (\<lambda>d. d < 0) ds = [] then 0
     else sum_list (map abs (filter (\<lambda>d. d < 0) ds)) / real (length (filter (\<lambda>d. d < 0) ds)))"
proof (cases "filter (\<lambda>d. d < 0) ds = []")
  case True
  then show ?thesis by (simp add: burn_rate_def)
next
  case False
  have "\<bar>sum_list (filter (\<lambda>d. d < 0) ds)\<bar> = sum_list (map abs (filter (\<lambda>d. d < 0) ds))"
    by (rule abs_sum_list_negative) simp
  with False show ?thesis
    by (simp add: burn_rate_def series_mean_def)
qed

lemma burn_rate_nonneg: "\<exists>b. burn_rate ds = Num b \<and> 0 \<le> b"
proof (cases "filter (\<lambda>d. d < 0) ds = []")
  case True
  then show ?thesis by (simp add: burn_rate_Num)
next
  case False
  have "0 < sum_list (map abs (filter (\<lambda>d. d < 0) ds))"
    using False by (intro sum_list_abs_negative_pos) simp_all
  with False show ?thesis by (simp add: burn_rate_Num)
qed

lemma runway_Num_pos: "0 < b \<Longrightarrow> runway s (Num b) = Num (s / b)"
  by (simp add: runway_def py_gt_def)

subsection \<open>Clipping, stability and the coefficient of variation\<close>

lemma py_clip_Num: "py_min (Num 100) (py_max (Num 0) (Num v)) = Num (clip_0_100 v)"
  by (simp add: py_min_def py_max_def py_gt_def clip_0_100_def min_def max_def)

lemma py_clip_special:
  "py_min (Num 100) (py_max (Num 0) NaN) = Num 0"
  "py_min (Num 100) (py_max (Num 0) PInf) = Num 100"
  "py_min (Num 100) (py_max (Num 0) NInf) = Num 0"
  by (simp_all add: py_min_def py_max_def py_gt_def)

lemma clip_0_100_range: "0 \<le> clip_0_100 v \<and> clip_0_100 v \<le> 100"
  by (simp add: clip_0_100_def)

lemma score_estabilidade_Num:
  "score_estabilidade (Num c) = Num (clip_0_100 (100 - c * 100))"
  by (simp add: score_estabilidade_def py_sub_def py_clip_Num)

lemma score_estabilidade_NaN: "score_estabilidade NaN = Num 0"
  by (simp add: score_estabilidade_def py_sub_def py_clip_special)

lemma cv_saldo_Num: "2 \<le> length xs \<Longrightarrow> cv_saldo xs = Num (spec_cv xs)"
  by (auto simp: cv_saldo_def series_mean_def series_std_def spec_cv_def spec_std_def
      spec_mean_def py_ne_def Let_def)

lemma cv_saldo_single: "cv_saldo [x] = (if x = 0 then Num 1 else NaN)"
  by (simp add: cv_saldo_def series_mean_def series_std_def py_ne_def)

lemma hhi_terms_scale:
  fixes c t :: real
  assumes "c \<noteq> 0"
  shows "map (\<lambda>v. (v / (c * t)) ^ 2) (map (\<lambda>v. c * v) vs) = map (\<lambda>v. (v / t) ^ 2) vs"
  using assms by simp

lemma clip_0_100_top: "100 \<le> x \<Longrightarrow> clip_0_100 x = 100"
  by (simp add: clip_0_100_def)

subsection \<open>Life stage\<close>

lemma crescimento_saldo_spec:
  "xs \<noteq> [] \<Longrightarrow> crescimento_saldo (hd xs) (last xs) = spec_growth_pct xs"
  by (simp add: crescimento_saldo_def spec_growth_pct_def)

lemma momento_vida_present:
  assumes xs: "xs = map VL_SLDO (filter (\<lambda>r. ID r = c) df)" and ne: "xs \<noteq> []"
  shows "calcular_momento_vida df c =
           Inr (spec_life_stage (length xs) (spec_growth_pct xs) (spec_cv xs))"
proof (cases "length xs \<le> 2")
  case True
  with ne show ?thesis
    unfolding calcular_momento_vida_def Let_def xs [symmetric]
    using xs by (simp add: iloc_first iloc_last spec_life_stage_def)
next
  case False
  then have "2 \<le> length xs" by simp
  then have cv: "cv_saldo xs = Num (spec_cv xs)" by (rule cv_saldo_Num)
  have len: "length (filter (\<lambda>r. ID r = c) df) = length xs" using xs by simp
  show ?thesis
    unfolding calcular_momento_vida_def Let_def xs [symmetric] len
    using ne False
    by (simp add: iloc_first iloc_last cv crescimento_saldo_spec spec_life_stage_def)
qed

lemma scenario_cv: "spec_cv [100000, 110000, 121000] < 0.3"
proof -
  have m: "spec_mean [100000, 110000, 121000] = 331000 / 3"
    by (simp add: spec_mean_def)
  have "spec_std [100000, 110000, 121000] < 33100"
    unfolding spec_std_def m
    by (rule real_less_lsqrt) (simp_all add: power2_eq_square)
  then show ?thesis
    by (simp add: spec_cv_def m)
qed

subsection \<open>Health score\<close>

lemma py_ge_Num: "py_ge (Num a) (Num b) = (b \<le> a)"
  by (auto simp: py_ge_def py_le_def)

lemma score_tendencia_spec: "score_tendencia xs = spec_trend xs"
  by (simp add: score_tendencia_def spec_trend_def Let_def not_less)

lemma score_estab_value:
  assumes "xs \<noteq> []"
  shows "score_estabilidade (cv_saldo xs) =
           Num (if length xs < 2 then 0 else clip_0_100 (100 - spec_cv xs * 100))"
proof (cases "length xs < 2")
  case True
  with assms obtain x where x: "xs = [x]" by (cases xs) auto
  show ?thesis
    unfolding x
    by (simp add: cv_saldo_single score_estabilidade_Num score_estabilidade_NaN clip_0_100_def)
next
  case False
  then have "2 \<le> length xs" by simp
  then have "cv_saldo xs = Num (spec_cv xs)" by (rule cv_saldo_Num)
  with False show ?thesis by (simp add: score_estabilidade_Num)
qed

lemma score_posicao_spec:
  "min 100 (max 0 ((if fat \<noteq> 0 then (saldo / fat) * 100 else 0) * 0.5))
     = spec_balance_position saldo fat"
  by (simp add: spec_balance_position_def clip_0_100_def)

lemma categoria_spec:
  "(if py_ge (Num s) (Num 80) then ''Alta''
    else if py_ge (Num s) (Num 60) then str_Media else ''Baixa'') = spec_health_category s"
  by (simp add: py_ge_Num spec_health_category_def)

lemma saude_present:
  assumes rows: "rows = filter (\<lambda>r. ID r = c) df" and ne: "rows \<noteq> []"
    and xs: "xs = map VL_SLDO rows"
    and s: "s = clip_0_100
                 (0.30 * clip_0_100 (50 + spec_growth_pct xs * 2)
                  + 0.25 * (if length xs < 2 then 0 else clip_0_100 (100 - spec_cv xs * 100))
                  + 0.25 * spec_balance_position (last xs) (VL_FATU (hd rows))
                  + 0.20 * spec_trend xs)"
  shows "calcular_saude_empresa df tr c = Inr (Num s, spec_health_category s)"
proof -
  have xne: "xs \<noteq> []" using xs ne by simp
  have fne: "map VL_FATU rows \<noteq> []" using ne by simp
  have e: "score_estabilidade (cv_saldo xs) =
           Num (if length xs < 2 then 0 else clip_0_100 (100 - spec_cv xs * 100))"
    using xne by (rule score_estab_value)
  have g: "min 100 (max 0 (50 + crescimento_saldo (hd xs) (last xs) * 2))
           = clip_0_100 (50 + spec_growth_pct xs * 2)"
    using xne by (simp add: crescimento_saldo_spec clip_0_100_def)
  have total: "py_min (Num 100) (py_max (Num 0)
                 (py_add (py_add (py_add (Num (clip_0_100 (50 + spec_growth_pct xs * 2) * 0.3))
                     (py_mul (Num (if length xs < 2 then 0 else clip_0_100 (100 - spec_cv xs * 100)))
                        (Num 0.25)))
                   (Num (spec_balance_position (last xs) (VL_FATU (hd rows)) * 0.25)))
                 (Num (spec_trend xs * 0.2)))) = Num s"
    unfolding s by (simp add: py_clip_Num algebra_simps)
  show ?thesis
    unfolding calcular_saude_empresa_def Let_def rows [symmetric] xs [symmetric]
    using ne
    by (simp only: iloc_first [OF xne] iloc_last [OF xne] iloc_first [OF fne] sum.case
        e g score_posicao_spec score_tendencia_spec total categoria_spec hd_map [OF ne]
        length_0_conv if_False)
qed


subsection \<open>The five ladders\<close>

lemma score_liquidez_tier: "score_liquidez s rw \<in> {0, 5, 10, 15, 20}"
  by (simp add: score_liquidez_def)

lemma score_relacionamentos_tier: "score_relacionamentos n h \<in> {0, 5, 10, 15, 20}"
  by (simp add: score_relacionamentos_def)

lemma score_tendencias_tier: "score_tendencias v s cv \<in> {0, 5, 10, 15, 20}"
  by (simp add: score_tendencias_def)

lemma score_atividade_tier: "score_atividade v i \<in> {0, 5, 10, 15, 20}"
  by (simp add: score_atividade_def)

lemma score_risco_tier: "score_risco s b cv \<in> {0, 5, 10, 15, 20}"
  by (simp add: score_risco_def)

lemma tier_bounds: "(t :: int) \<in> {0, 5, 10, 15, 20} \<Longrightarrow> 0 \<le> t \<and> t \<le> 20"
  by auto

lemma score_liquidez_ladder:
  "score_liquidez s rw =
     first_tier [(s > 0 \<and> py_gt rw (Num 12), 20), (s > 0 \<and> py_gt rw (Num 6), 15),
                 (s > 0 \<and> py_gt rw (Num 3), 10), (s > 0, 5)]"
  by (simp add: score_liquidez_def)

lemma score_relacionamentos_ladder:
  "score_relacionamentos n h =
     first_tier [(n > 20 \<and> h < 0.3, 20), (n > 15 \<and> h < 0.5, 15),
                 (n > 10 \<and> h < 0.7, 10), (n > 5, 5)]"
  by (simp add: score_relacionamentos_def)

lemma score_tendencias_ladder:
  "score_tendencias v s cv =
     first_tier [(v > 0 \<and> py_lt cv (Num 0.2), 20), (v > 0 \<and> py_lt cv (Num 0.4), 15),
                 (v > 0, 10), (v > - s * 0.1, 5)]"
  by (simp add: score_tendencias_def)

lemma score_atividade_ladder:
  "score_atividade vol i =
     first_tier [(vol > 1000000 \<and> i \<ge> 4, 20), (vol > 500000 \<and> i \<ge> 3, 15),
                 (vol > 100000 \<and> i \<ge> 2, 10), (vol > 0, 5)]"
  by (simp add: score_atividade_def)

lemma score_risco_ladder:
  "score_risco s b cv =
     first_tier [(s > 0 \<and> py_lt b (Num (s * 0.1)) \<and> py_lt cv (Num 0.3), 20),
                 (s > 0 \<and> py_lt b (Num (s * 0.2)) \<and> py_lt cv (Num 0.5), 15),
                 (s > 0 \<and> py_lt b (Num (s * 0.3)), 10), (s > 0, 5)]"
  by (simp add: score_risco_def)

subsection \<open>Credit score of a company present in the records\<close>

lemma santander_present:
  assumes ne: "filter (\<lambda>r. ID r = c) df \<noteq> []"
  shows "(let dados = filter (\<lambda>r. ID r = c) df;
              saldos = map VL_SLDO dados;
              saldo_atual = last saldos;
              burn = burn_rate (diff_dropna saldos);
              pag = filter (\<lambda>t. ID_PGTO t = c) tr;
              rec = filter (\<lambda>t. ID_RCBE t = c) tr;
              hhi_medio = (calculate_hhi (groupby_sum ID_RCBE pag)
                           + calculate_hhi (groupby_sum ID_PGTO rec)) / 2;
              l = score_liquidez saldo_atual (runway saldo_atual burn);
              r = score_relacionamentos
                    (length (remdups (map ID_RCBE pag @ map ID_PGTO rec))) hhi_medio;
              t = score_tendencias (saldo_atual - hd saldos) saldo_atual (cv_saldo saldos);
              a = score_atividade (sum_list (map VL pag) + sum_list (map VL rec))
                    (length dados);
              k = score_risco saldo_atual burn (cv_saldo saldos)
          in calcular_score_santander df tr c =
               Inr (l + r + t + a + k,
                    PyDict [(''Liquidez'', l), (''Relacionamentos'', r), (str_Tendencias, t),
                            (''Atividade'', a), (''Risco'', k), (''Total'', l + r + t + a + k)]))"
proof -
  have xne: "map VL_SLDO (filter (\<lambda>r. ID r = c) df) \<noteq> []" using ne by simp
  show ?thesis
    unfolding calcular_score_santander_def Let_def
    using ne by (simp add: iloc_first [OF xne] iloc_last [OF xne])
qed

lemma five_tiers_range:
  fixes l r t a k :: int
  assumes "l \<in> {0, 5, 10, 15, 20}" "r \<in> {0, 5, 10, 15, 20}" "t \<in> {0, 5, 10, 15, 20}"
    "a \<in> {0, 5, 10, 15, 20}" "k \<in> {0, 5, 10, 15, 20}"
  shows "0 \<le> l + r + t + a + k \<and> l + r + t + a + k \<le> 100"
  using tier_bounds [OF assms(1)] tier_bounds [OF assms(2)] tier_bounds [OF assms(3)]
    tier_bounds [OF assms(4)] tier_bounds [OF assms(5)]
  by linarith

subsection \<open>The latest month\<close>

lemma ultimo_mes_data_set:
  "r \<in> set (ultimo_mes_data df) \<longleftrightarrow> r \<in> set df \<and> (\<forall>r' \<in> set df. MES r' \<le> MES r)"
proof (cases "df = []")
  case True
  then show ?thesis by (simp add: ultimo_mes_data_def)
next
  case False
  then have ne: "set (map MES df) \<noteq> {}" by simp
  have fin: "finite (set (map MES df))" by simp
  have "r \<in> set df \<Longrightarrow> (MES r = Max (set (map MES df))) = (\<forall>r' \<in> set df. MES r' \<le> MES r)"
  proof -
    assume r: "r \<in> set df"
    then have mem: "MES r \<in> set (map MES df)" by simp
    show ?thesis
    proof
      assume "MES r = Max (set (map MES df))"
      then show "\<forall>r' \<in> set df. MES r' \<le> MES r"
        using Max_ge [OF fin] by simp
    next
      assume a: "\<forall>r' \<in> set df. MES r' \<le> MES r"
      have "Max (set (map MES df)) \<le> MES r"
        using a ne by (subst Max_le_iff [OF fin ne]) auto
      moreover have "MES r \<le> Max (set (map MES df))"
        using Max_ge [OF fin mem] .
      ultimately show "MES r = Max (set (map MES df))" by simp
    qed
  qed
  with False show ?thesis by (auto simp: ultimo_mes_data_def)
qed

section \<open>Claims\<close>

text \<open>
  C3. For every collection of per-counterparty sums, \<^verbatim>\<open>calculate_hhi\<close> returns the sum of
  the squared shares \<open>(v / total)\<^sup>2\<close> with \<open>total\<close> the sum of the values; it returns 0
  for the empty collection and 0 when the total is 0; and when every value is positive
  the result lies between 0 and 1.
\<close>

theorem calculate_hhi_formula_and_range:
  "calculate_hhi [] = 0
   \<and> (sum_list vs = 0 \<longrightarrow> calculate_hhi vs = 0)
   \<and> (vs \<noteq> [] \<and> sum_list vs \<noteq> 0 \<longrightarrow>
        calculate_hhi vs = sum_list (map (\<lambda>v. (v / sum_list vs) ^ 2) vs))
   \<and> ((\<forall>v \<in> set vs. 0 < v) \<longrightarrow> 0 \<le> calculate_hhi vs \<and> calculate_hhi vs \<le> 1)"
proof (intro conjI impI)
  show "calculate_hhi [] = 0" by (simp add: calculate_hhi_def)
  show "calculate_hhi vs = 0" if "sum_list vs = 0"
    using that by (simp add: calculate_hhi_def)
  show "calculate_hhi vs = sum_list (map (\<lambda>v. (v / sum_list vs) ^ 2) vs)"
    if "vs \<noteq> [] \<and> sum_list vs \<noteq> 0"
    using that by (simp add: calculate_hhi_def)
  show "0 \<le> calculate_hhi vs" if "\<forall>v \<in> set vs. 0 < v"
    by (simp add: calculate_hhi_def Let_def hhi_sum_nonneg)
  show "calculate_hhi vs \<le> 1" if "\<forall>v \<in> set vs. 0 < v"
  proof -
    have nn: "\<And>x. x \<in> set vs \<Longrightarrow> 0 \<le> x" using that by force
    show ?thesis
      using hhi_sum_le_1 [OF nn] by (simp add: calculate_hhi_def Let_def)
  qed
qed

theorem calculate_hhi_formula_and_range_witness:
  "sum_list [1, 3 :: real] \<noteq> 0 \<and> (0 :: real) < 1 \<and> (0 :: real) < 3
   \<and> calculate_hhi [1, 3] = 5 / 8
   \<and> 0 \<le> calculate_hhi [1, 3] \<and> calculate_hhi [1, 3] \<le> 1
   \<and> sum_list [2, - 2 :: real] = 0 \<and> calculate_hhi [2, - 2] = 0"
  using calculate_hhi_formula_and_range [of "[1, 3]"]
    calculate_hhi_formula_and_range [of "[2, - 2]"]
  by (simp add: power2_eq_square)

text \<open>
  C5. For every ordered balance series, the burn rate is the mean of the absolute values
  of the negative month-over-month deltas, and 0 when there is no negative delta; the
  runway is the current balance divided by the burn rate when the burn rate is positive
  and \<^verbatim>\<open>float('inf')\<close> otherwise. In particular a series without negative deltas, and
  every one-record series (which has no deltas), has burn rate 0 and infinite runway.
\<close>

theorem burn_rate_runway:
  "(filter (\<lambda>d. d < 0) (diff_dropna saldos) = [] \<longrightarrow>
      burn_rate (diff_dropna saldos) = Num 0
      \<and> runway saldo_atual (burn_rate (diff_dropna saldos)) = PInf)
   \<and> (filter (\<lambda>d. d < 0) (diff_dropna saldos) \<noteq> [] \<longrightarrow>
      (\<exists>b. b = sum_list (map abs (filter (\<lambda>d. d < 0) (diff_dropna saldos)))
               / real (length (filter (\<lambda>d. d < 0) (diff_dropna saldos)))
          \<and> 0 < b
          \<and> burn_rate (diff_dropna saldos) = Num b
          \<and> runway saldo_atual (burn_rate (diff_dropna saldos)) = Num (saldo_atual / b)))
   \<and> (length saldos = 1 \<longrightarrow>
      diff_dropna saldos = []
      \<and> burn_rate (diff_dropna saldos) = Num 0
      \<and> runway saldo_atual (burn_rate (diff_dropna saldos)) = PInf)
   \<and> runway saldo_atual (Num burn) = (if 0 < burn then Num (saldo_atual / burn) else PInf)"
proof (intro conjI impI)
  let ?negs = "filter (\<lambda>d. d < 0) (diff_dropna saldos)"
  show "burn_rate (diff_dropna saldos) = Num 0" if "?negs = []"
    using that by (simp add: burn_rate_Num)
  show "runway saldo_atual (burn_rate (diff_dropna saldos)) = PInf" if "?negs = []"
    using that by (simp add: burn_rate_Num runway_def py_gt_def)
  show "\<exists>b. b = sum_list (map abs ?negs) / real (length ?negs) \<and> 0 < b
          \<and> burn_rate (diff_dropna saldos) = Num b
          \<and> runway saldo_atual (burn_rate (diff_dropna saldos)) = Num (saldo_atual / b)"
    if ne: "?negs \<noteq> []"
  proof -
    define b where "b = sum_list (map abs ?negs) / real (length ?negs)"
    have "0 < sum_list (map abs ?negs)"
      using ne by (intro sum_list_abs_negative_pos) simp_all
    then have pos: "0 < b"
      using ne by (simp add: b_def)
    have br: "burn_rate (diff_dropna saldos) = Num b"
      using ne by (simp add: burn_rate_Num b_def)
    have "runway saldo_atual (Num b) = Num (saldo_atual / b)"
      using pos by (rule runway_Num_pos)
    with br pos show ?thesis by (simp add: b_def)
  qed
  have one: "diff_dropna saldos = []" if "length saldos = 1"
    using that by (cases saldos) simp_all
  show "diff_dropna saldos = []" if "length saldos = 1" using that by (rule one)
  show "burn_rate (diff_dropna saldos) = Num 0" if "length saldos = 1"
    using one [OF that] by (simp add: burn_rate_def)
  show "runway saldo_atual (burn_rate (diff_dropna saldos)) = PInf" if "length saldos = 1"
    using one [OF that] by (simp add: burn_rate_def runway_def py_gt_def)
  show "runway saldo_atual (Num burn) = (if 0 < burn then Num (saldo_atual / burn) else PInf)"
    by (simp add: runway_def py_gt_def)
qed

theorem burn_rate_runway_witness:
  "filter (\<lambda>d. d < 0) (diff_dropna [10, 7, 9, 4 :: real]) \<noteq> []
   \<and> burn_rate (diff_dropna [10, 7, 9, 4]) = Num 4
   \<and> runway 4 (burn_rate (diff_dropna [10, 7, 9, 4])) = Num 1
   \<and> filter (\<lambda>d. d < 0) (diff_dropna [1, 2, 2 :: real]) = []
   \<and> burn_rate (diff_dropna [1, 2, 2]) = Num 0
   \<and> runway 2 (burn_rate (diff_dropna [1, 2, 2])) = PInf
   \<and> length [5 :: real] = 1
   \<and> burn_rate (diff_dropna [5]) = Num 0
   \<and> runway 5 (burn_rate (diff_dropna [5])) = PInf"
  using burn_rate_runway [of "[10, 7, 9, 4]" 4 0] burn_rate_runway [of "[1, 2, 2]" 2 0]
    burn_rate_runway [of "[5]" 5 0]
  by (simp add: burn_rate_def series_mean_def runway_def py_gt_def)

text \<open>
  C6. For every non-empty balance series, with the burn rate and the runway derived as
  above, the cash-stress flag is true exactly when the balance is negative, or the runway
  is below 3, or the balance is positive and the burn rate exceeds half of it. (The
  program tests \<^verbatim>\<open>burn_rate_mes > saldo_atual * 0.5\<close> without the guard on the sign of
  the balance; with the derived runway the two conditions agree.)
\<close>

theorem flag_stress_caixa_iff:
  assumes "saldos \<noteq> []"
  shows "\<exists>b r. burn_rate (diff_dropna saldos) = Num b
          \<and> runway (last saldos) (Num b) = r
          \<and> indicadores_liquidez saldos =
              Inr (Num b, r,
                   last saldos < 0 \<or> py_lt r (Num 3) \<or> (last saldos > 0 \<and> b > 0.5 * last saldos))"
proof -
  obtain b where b: "burn_rate (diff_dropna saldos) = Num b" and nn: "0 \<le> b"
    using burn_rate_nonneg by blast
  have "(last saldos < 0 \<or> py_lt (runway (last saldos) (Num b)) (Num 3)
          \<or> py_gt (Num b) (Num (last saldos * 0.5)))
        = (last saldos < 0 \<or> py_lt (runway (last saldos) (Num b)) (Num 3)
          \<or> (last saldos > 0 \<and> b > 0.5 * last saldos))"
  proof (cases "b = 0")
    case True
    then show ?thesis by (auto simp: runway_def py_gt_def)
  next
    case False
    with nn have pos: "0 < b" by simp
    then have "py_lt (runway (last saldos) (Num b)) (Num 3) = (last saldos < 3 * b)"
      by (simp add: runway_def py_gt_def pos_divide_less_eq)
    with pos show ?thesis by (auto simp: py_gt_def)
  qed
  then show ?thesis
    using b assms by (simp add: indicadores_liquidez_def iloc_last Let_def)
qed

theorem flag_stress_caixa_iff_witness:
  "[10, 7, 9, 4 :: real] \<noteq> []
   \<and> indicadores_liquidez [10, 7, 9, 4] = Inr (Num 4, Num 1, True)"
  using flag_stress_caixa_iff [of "[10, 7, 9, 4]"]
  by (simp add: burn_rate_def series_mean_def runway_def py_gt_def)

text \<open>
  C4 as stated: the index of the empty collection is 0, the index of every one-element
  collection \<open>[x]\<close> is 1, and the index does not change when every value is multiplied
  by the same positive constant. The second part fails at \<open>x = 0\<close>: the total is 0 and
  the guard \<^verbatim>\<open>if total == 0: return 0\<close> answers 0.
\<close>

theorem calculate_hhi_single_zero: "calculate_hhi [0] \<noteq> 1"
  by (simp add: calculate_hhi_def)

text \<open>
  C4, amended: the index of the empty collection is 0; the index of a one-element
  collection \<open>[x]\<close> with \<open>x \<noteq> 0\<close> is 1; and for every collection and every positive
  constant \<open>c\<close> the index of the collection with every value multiplied by \<open>c\<close> equals
  the index of the original collection.
\<close>

theorem calculate_hhi_algebra:
  "calculate_hhi [] = 0
   \<and> (x \<noteq> 0 \<longrightarrow> calculate_hhi [x] = 1)
   \<and> (0 < c \<longrightarrow> calculate_hhi (map (\<lambda>v. c * v) vs) = calculate_hhi vs)"
proof (intro conjI impI)
  show "calculate_hhi [] = 0" by (simp add: calculate_hhi_def)
  show "calculate_hhi [x] = 1" if "x \<noteq> 0"
    using that by (simp add: calculate_hhi_def)
  show "calculate_hhi (map (\<lambda>v. c * v) vs) = calculate_hhi vs" if c: "0 < c"
  proof -
    have c0: "c \<noteq> 0" using c by simp
    have total: "sum_list (map (\<lambda>v. c * v) vs) = c * sum_list vs"
      by (rule sum_list_scale)
    have terms: "map (\<lambda>v. (v / (c * sum_list vs)) ^ 2) (map (\<lambda>v. c * v) vs)
                 = map (\<lambda>v. (v / sum_list vs) ^ 2) vs"
      using c0 by (rule hhi_terms_scale)
    show ?thesis
      unfolding calculate_hhi_def Let_def total terms
      using c0 by simp
  qed
qed

theorem calculate_hhi_algebra_witness:
  "(7 :: real) \<noteq> 0 \<and> calculate_hhi [7] = 1
   \<and> (0 :: real) < 2 \<and> calculate_hhi (map (\<lambda>v. 2 * v) [1, 3]) = calculate_hhi [1, 3]"
  using calculate_hhi_algebra [of 7 2 "[1, 3]"] by simp

text \<open>
  C10. For every balance series whose mean is strictly negative and whose standard
  deviation is positive, the coefficient of variation computed by the health scorer is
  negative, and the stability sub-score \<^verbatim>\<open>min(100, max(0, 100 - cv*100))\<close> is exactly
  100.
\<close>

theorem negative_mean_max_stability:
  assumes "series_mean saldos = Num m" and "m < 0"
    and "series_std saldos = Num s" and "0 < s"
  shows "\<exists>c. cv_saldo saldos = Num c \<and> c < 0
           \<and> score_estabilidade (cv_saldo saldos) = Num 100"
proof -
  have cv: "cv_saldo saldos = Num (s / m)"
    using assms by (simp add: cv_saldo_def py_ne_def)
  have neg: "s / m < 0" using assms by (simp add: divide_pos_neg)
  then have "s / m * 100 < 0" by (intro mult_neg_pos) simp_all
  then have "100 \<le> 100 - s / m * 100" by linarith
  then have "clip_0_100 (100 - s / m * 100) = 100" by (rule clip_0_100_top)
  then have "score_estabilidade (Num (s / m)) = Num 100"
    by (simp only: score_estabilidade_Num)
  with cv neg show ?thesis by (simp only: exI [of _ "s / m"] simp_thms)
qed

theorem negative_mean_max_stability_witness:
  "series_mean [- 10, - 30] = Num (- 20) \<and> (- 20 :: real) < 0
   \<and> series_std [- 10, - 30] = Num (sqrt 200) \<and> 0 < sqrt 200
   \<and> score_estabilidade (cv_saldo [- 10, - 30]) = Num 100"
proof -
  have m: "series_mean [- 10, - 30] = Num (- 20)" by (simp add: series_mean_def)
  have s: "series_std [- 10, - 30] = Num (sqrt 200)" by (simp add: series_std_def)
  have p: "0 < sqrt 200" by simp
  show ?thesis
    using negative_mean_max_stability [OF m _ s p] m s by auto
qed

text \<open>
  C7. For every company present in the records, \<^verbatim>\<open>calcular_momento_vida\<close> returns what
  the priority ladder of the specification gives on the age in months (the number of the
  company's records), the growth in percent \<open>(last - first) / |first| \<times> 100\<close> (0 when the
  first balance is 0) and the coefficient of variation \<open>std / mean\<close> (1 when the mean
  is 0), the first matching rule winning: at most 2 months, "Iniciante" (Starting) 20;
  growth above 20 and cv below 0.3, "Desenvolvimento" (Growing) 80; growth above 0 and cv
  below 0.5, "Madura" (Mature) 60; growth below -10, "Declinio" (Declining) 20; otherwise
  "Madura" 50. For the balances 100000, 110000, 121000 the growth is 21 percent and the
  cv is below 0.3, so the result is "Desenvolvimento" with score 80.
\<close>

theorem life_stage_ladder:
  "(filter (\<lambda>r. ID r = c) df \<noteq> [] \<longrightarrow>
      calcular_momento_vida df c =
        Inr (spec_life_stage (length (filter (\<lambda>r. ID r = c) df))
               (spec_growth_pct (map VL_SLDO (filter (\<lambda>r. ID r = c) df)))
               (spec_cv (map VL_SLDO (filter (\<lambda>r. ID r = c) df)))))
   \<and> calcular_momento_vida
        [\<lparr>ID = 1, VL_SLDO = 100000, VL_FATU = 500000\<rparr>,
         \<lparr>ID = 1, VL_SLDO = 110000, VL_FATU = 500000\<rparr>,
         \<lparr>ID = 1, VL_SLDO = 121000, VL_FATU = 500000\<rparr>] 1
       = Inr (''Desenvolvimento'', 80)"
proof (intro conjI impI)
  show "calcular_momento_vida df c =
        Inr (spec_life_stage (length (filter (\<lambda>r. ID r = c) df))
               (spec_growth_pct (map VL_SLDO (filter (\<lambda>r. ID r = c) df)))
               (spec_cv (map VL_SLDO (filter (\<lambda>r. ID r = c) df))))"
    if "filter (\<lambda>r. ID r = c) df \<noteq> []"
    using momento_vida_present [OF refl, of c df] that by simp
  let ?df = "[\<lparr>ID = 1, VL_SLDO = 100000, VL_FATU = 500000\<rparr>,
         \<lparr>ID = 1, VL_SLDO = 110000, VL_FATU = 500000\<rparr>,
         \<lparr>ID = 1, VL_SLDO = 121000, VL_FATU = 500000\<rparr>]"
  have xs: "[100000, 110000, 121000] = map VL_SLDO (filter (\<lambda>r. ID r = 1) ?df)"
    by simp
  have g: "spec_growth_pct [100000, 110000, 121000] = 21"
    by (simp add: spec_growth_pct_def)
  show "calcular_momento_vida ?df 1 = Inr (''Desenvolvimento'', 80)"
    using momento_vida_present [OF xs] scenario_cv
    by (simp add: g spec_life_stage_def)
qed

theorem life_stage_ladder_witness:
  "filter (\<lambda>r. ID r = 7) [\<lparr>ID = 7, VL_SLDO = 10, VL_FATU = 100\<rparr>,
       \<lparr>ID = 3, VL_SLDO = 1, VL_FATU = 1\<rparr>,
       \<lparr>ID = 7, VL_SLDO = 8, VL_FATU = 100\<rparr>,
       \<lparr>ID = 7, VL_SLDO = 6, VL_FATU = 100\<rparr>] \<noteq> []
   \<and> calcular_momento_vida [\<lparr>ID = 7, VL_SLDO = 10, VL_FATU = 100\<rparr>,
       \<lparr>ID = 3, VL_SLDO = 1, VL_FATU = 1\<rparr>,
       \<lparr>ID = 7, VL_SLDO = 8, VL_FATU = 100\<rparr>,
       \<lparr>ID = 7, VL_SLDO = 6, VL_FATU = 100\<rparr>] 7 = Inr (str_Declinio, 20)"
  using life_stage_ladder [of 7 "[\<lparr>ID = 7, VL_SLDO = 10, VL_FATU = 100\<rparr>,
       \<lparr>ID = 3, VL_SLDO = 1, VL_FATU = 1\<rparr>,
       \<lparr>ID = 7, VL_SLDO = 8, VL_FATU = 100\<rparr>,
       \<lparr>ID = 7, VL_SLDO = 6, VL_FATU = 100\<rparr>]"]
  by (simp add: spec_life_stage_def spec_growth_pct_def)

text \<open>
  C1. For every company present in the records, the health score returned by
  \<^verbatim>\<open>calcular_saude_empresa\<close> is a number between 0 and 100, whatever the growth, the
  coefficient of variation and the ratio of balance to revenue are. It is the clip to
  \<open>[0, 100]\<close> of 0.30 times the clipped growth sub-score \<open>50 + growth \<times> 2\<close>, plus 0.25
  times the clipped stability sub-score \<open>100 - cv \<times> 100\<close>, plus 0.25 times the clipped
  balance position (0 when the revenue is 0), plus 0.20 times the percentage of positive
  month-over-month deltas (50 with fewer than two records). The category is "Alta" from
  80, "Media" from 60 and "Baixa" below. For a one-record series the coefficient of
  variation is 1 (balance 0) or NaN (the sample standard deviation of pandas), and
  \<^verbatim>\<open>min(100, max(0, ...))\<close> sends both to the stability sub-score 0.
\<close>

theorem health_score_bounded:
  "filter (\<lambda>r. ID r = c) df \<noteq> [] \<longrightarrow>
     (\<exists>s. calcular_saude_empresa df tr c = Inr (Num s, spec_health_category s)
        \<and> 0 \<le> s \<and> s \<le> 100
        \<and> s = clip_0_100
                (0.30 * clip_0_100
                          (50 + spec_growth_pct (map VL_SLDO (filter (\<lambda>r. ID r = c) df)) * 2)
                 + 0.25 * (if length (map VL_SLDO (filter (\<lambda>r. ID r = c) df)) < 2 then 0
                           else clip_0_100
                                  (100 - spec_cv (map VL_SLDO (filter (\<lambda>r. ID r = c) df)) * 100))
                 + 0.25 * spec_balance_position
                            (last (map VL_SLDO (filter (\<lambda>r. ID r = c) df)))
                            (VL_FATU (hd (filter (\<lambda>r. ID r = c) df)))
                 + 0.20 * spec_trend (map VL_SLDO (filter (\<lambda>r. ID r = c) df))))"
proof
  assume ne: "filter (\<lambda>r. ID r = c) df \<noteq> []"
  show "\<exists>s. calcular_saude_empresa df tr c = Inr (Num s, spec_health_category s)
        \<and> 0 \<le> s \<and> s \<le> 100
        \<and> s = clip_0_100
                (0.30 * clip_0_100
                          (50 + spec_growth_pct (map VL_SLDO (filter (\<lambda>r. ID r = c) df)) * 2)
                 + 0.25 * (if length (map VL_SLDO (filter (\<lambda>r. ID r = c) df)) < 2 then 0
                           else clip_0_100
                                  (100 - spec_cv (map VL_SLDO (filter (\<lambda>r. ID r = c) df)) * 100))
                 + 0.25 * spec_balance_position
                            (last (map VL_SLDO (filter (\<lambda>r. ID r = c) df)))
                            (VL_FATU (hd (filter (\<lambda>r. ID r = c) df)))
                 + 0.20 * spec_trend (map VL_SLDO (filter (\<lambda>r. ID r = c) df)))"
    using saude_present [OF refl ne refl refl, of tr] clip_0_100_range by blast
qed

theorem health_score_bounded_witness:
  "filter (\<lambda>r. ID r = 1) [\<lparr>ID = 1, VL_SLDO = 100, VL_FATU = 100\<rparr>,
                             \<lparr>ID = 1, VL_SLDO = 100, VL_FATU = 100\<rparr>] \<noteq> []
   \<and> calcular_saude_empresa [\<lparr>ID = 1, VL_SLDO = 100, VL_FATU = 100\<rparr>,
                              \<lparr>ID = 1, VL_SLDO = 100, VL_FATU = 100\<rparr>] [] 1
       = Inr (Num (105 / 2), ''Baixa'')"
proof -
  let ?df = "[\<lparr>ID = 1, VL_SLDO = 100, VL_FATU = 100\<rparr>,
              \<lparr>ID = 1, VL_SLDO = 100, VL_FATU = 100\<rparr>]"
  have ne: "filter (\<lambda>r. ID r = 1) ?df \<noteq> []" by simp
  from health_score_bounded [of 1 ?df "[]"] ne
  obtain s where r: "calcular_saude_empresa ?df [] 1 = Inr (Num s, spec_health_category s)"
    and s: "s = clip_0_100
                (0.30 * clip_0_100
                          (50 + spec_growth_pct (map VL_SLDO (filter (\<lambda>r. ID r = 1) ?df)) * 2)
                 + 0.25 * (if length (map VL_SLDO (filter (\<lambda>r. ID r = 1) ?df)) < 2 then 0
                           else clip_0_100
                                  (100 - spec_cv (map VL_SLDO (filter (\<lambda>r. ID r = 1) ?df)) * 100))
                 + 0.25 * spec_balance_position
                            (last (map VL_SLDO (filter (\<lambda>r. ID r = 1) ?df)))
                            (VL_FATU (hd (filter (\<lambda>r. ID r = 1) ?df)))
                 + 0.20 * spec_trend (map VL_SLDO (filter (\<lambda>r. ID r = 1) ?df)))"
    by blast
  have "s = 105 / 2"
    unfolding s
    by (simp add: clip_0_100_def spec_growth_pct_def spec_cv_def
        spec_std_def spec_mean_def spec_balance_position_def spec_trend_def)
  with r ne show ?thesis by (simp add: spec_health_category_def)
qed

text \<open>
  C8 as stated: for a company identifier absent from the records, each of the three
  scorers returns the score 0 and the category "N/A", and raises nothing. This fails for
  \<^verbatim>\<open>calcular_score_santander\<close>: its early return is \<^verbatim>\<open>return 0, {}\<close>, a score with
  an empty breakdown dictionary and no category.
\<close>

theorem score_santander_missing_not_category:
  "calcular_score_santander [] [] 0 = Inr (0, PyDict [])
   \<and> calcular_score_santander [] [] 0 \<noteq> Inr (0, PyStr ''N/A'')"
  by (simp add: calcular_score_santander_def)

text \<open>
  C8, amended: for a company identifier absent from the records, none of the three
  scorers raises; \<^verbatim>\<open>calcular_momento_vida\<close> returns the stage "N/A" with score 0,
  \<^verbatim>\<open>calcular_saude_empresa\<close> returns the score 0 with category "N/A", and
  \<^verbatim>\<open>calcular_score_santander\<close> returns the score 0 with the empty breakdown.
\<close>

theorem missing_company_defaults:
  assumes "filter (\<lambda>r. ID r = c) df = []"
  shows "calcular_momento_vida df c = Inr (''N/A'', 0)
         \<and> calcular_saude_empresa df tr c = Inr (Num 0, ''N/A'')
         \<and> calcular_score_santander df tr c = Inr (0, PyDict [])"
  using assms
  by (simp add: calcular_momento_vida_def calcular_saude_empresa_def
      calcular_score_santander_def)

theorem missing_company_defaults_witness:
  "filter (\<lambda>r. ID r = 2) [\<lparr>ID = 1, VL_SLDO = 100, VL_FATU = 100\<rparr>] = []
   \<and> calcular_momento_vida [\<lparr>ID = 1, VL_SLDO = 100, VL_FATU = 100\<rparr>] 2 = Inr (''N/A'', 0)
   \<and> calcular_saude_empresa [\<lparr>ID = 1, VL_SLDO = 100, VL_FATU = 100\<rparr>]
        [\<lparr>ID_PGTO = 2, ID_RCBE = 1, VL = 5\<rparr>] 2 = Inr (Num 0, ''N/A'')
   \<and> calcular_score_santander [\<lparr>ID = 1, VL_SLDO = 100, VL_FATU = 100\<rparr>]
        [\<lparr>ID_PGTO = 2, ID_RCBE = 1, VL = 5\<rparr>] 2 = Inr (0, PyDict [])"
  using missing_company_defaults [of 2 "[\<lparr>ID = 1, VL_SLDO = 100, VL_FATU = 100\<rparr>]"
      "[\<lparr>ID_PGTO = 2, ID_RCBE = 1, VL = 5\<rparr>]"]
  by simp

text \<open>
  C2. For every company present in the records, the total returned by
  \<^verbatim>\<open>calcular_score_santander\<close> is the sum of its five dimension tiers (liquidity,
  relationships, trend, activity, risk), which the breakdown lists with the total; each
  tier is one of 0, 5, 10, 15, 20, so the total lies between 0 and 100; and each tier is
  the value of the first rule of its ladder whose condition holds, read from the top,
  and 0 when none holds.
\<close>

theorem score_santander_tiers:
  "(filter (\<lambda>r. ID r = c) df \<noteq> [] \<longrightarrow>
     (let dados = filter (\<lambda>r. ID r = c) df;
          saldos = map VL_SLDO dados;
          saldo_atual = last saldos;
          burn = burn_rate (diff_dropna saldos);
          pag = filter (\<lambda>t. ID_PGTO t = c) tr;
          rec = filter (\<lambda>t. ID_RCBE t = c) tr;
          hhi_medio = (calculate_hhi (groupby_sum ID_RCBE pag)
                       + calculate_hhi (groupby_sum ID_PGTO rec)) / 2;
          l = score_liquidez saldo_atual (runway saldo_atual burn);
          r = score_relacionamentos
                (length (remdups (map ID_RCBE pag @ map ID_PGTO rec))) hhi_medio;
          t = score_tendencias (saldo_atual - hd saldos) saldo_atual (cv_saldo saldos);
          a = score_atividade (sum_list (map VL pag) + sum_list (map VL rec))
                (length dados);
          k = score_risco saldo_atual burn (cv_saldo saldos)
      in calcular_score_santander df tr c =
           Inr (l + r + t + a + k,
                PyDict [(''Liquidez'', l), (''Relacionamentos'', r), (str_Tendencias, t),
                        (''Atividade'', a), (''Risco'', k), (''Total'', l + r + t + a + k)])
         \<and> l \<in> {0, 5, 10, 15, 20} \<and> r \<in> {0, 5, 10, 15, 20} \<and> t \<in> {0, 5, 10, 15, 20}
         \<and> a \<in> {0, 5, 10, 15, 20} \<and> k \<in> {0, 5, 10, 15, 20}
         \<and> 0 \<le> l + r + t + a + k \<and> l + r + t + a + k \<le> 100))
   \<and> score_liquidez s rw =
       first_tier [(s > 0 \<and> py_gt rw (Num 12), 20), (s > 0 \<and> py_gt rw (Num 6), 15),
                   (s > 0 \<and> py_gt rw (Num 3), 10), (s > 0, 5)]
   \<and> score_relacionamentos n h =
       first_tier [(n > 20 \<and> h < 0.3, 20), (n > 15 \<and> h < 0.5, 15),
                   (n > 10 \<and> h < 0.7, 10), (n > 5, 5)]
   \<and> score_tendencias v s cv =
       first_tier [(v > 0 \<and> py_lt cv (Num 0.2), 20), (v > 0 \<and> py_lt cv (Num 0.4), 15),
                   (v > 0, 10), (v > - s * 0.1, 5)]
   \<and> score_atividade vol i =
       first_tier [(vol > 1000000 \<and> i \<ge> 4, 20), (vol > 500000 \<and> i \<ge> 3, 15),
                   (vol > 100000 \<and> i \<ge> 2, 10), (vol > 0, 5)]
   \<and> score_risco s b cv =
       first_tier [(s > 0 \<and> py_lt b (Num (s * 0.1)) \<and> py_lt cv (Num 0.3), 20),
                   (s > 0 \<and> py_lt b (Num (s * 0.2)) \<and> py_lt cv (Num 0.5), 15),
                   (s > 0 \<and> py_lt b (Num (s * 0.3)), 10), (s > 0, 5)]"
proof (intro conjI impI)
  assume ne: "filter (\<lambda>r. ID r = c) df \<noteq> []"
  show "let dados = filter (\<lambda>r. ID r = c) df;
          saldos = map VL_SLDO dados;
          saldo_atual = last saldos;
          burn = burn_rate (diff_dropna saldos);
          pag = filter (\<lambda>t. ID_PGTO t = c) tr;
          rec = filter (\<lambda>t. ID_RCBE t = c) tr;
          hhi_medio = (calculate_hhi (groupby_sum ID_RCBE pag)
                       + calculate_hhi (groupby_sum ID_PGTO rec)) / 2;
          l = score_liquidez saldo_atual (runway saldo_atual burn);
          r = score_relacionamentos
                (length (remdups (map ID_RCBE pag @ map ID_PGTO rec))) hhi_medio;
          t = score_tendencias (saldo_atual - hd saldos) saldo_atual (cv_saldo saldos);
          a = score_atividade (sum_list (map VL pag) + sum_list (map VL rec))
                (length dados);
          k = score_risco saldo_atual burn (cv_saldo saldos)
      in calcular_score_santander df tr c =
           Inr (l + r + t + a + k,
                PyDict [(''Liquidez'', l), (''Relacionamentos'', r), (str_Tendencias, t),
                        (''Atividade'', a), (''Risco'', k), (''Total'', l + r + t + a + k)])
         \<and> l \<in> {0, 5, 10, 15, 20} \<and> r \<in> {0, 5, 10, 15, 20} \<and> t \<in> {0, 5, 10, 15, 20}
         \<and> a \<in> {0, 5, 10, 15, 20} \<and> k \<in> {0, 5, 10, 15, 20}
         \<and> 0 \<le> l + r + t + a + k \<and> l + r + t + a + k \<le> 100"
    using santander_present [OF ne, of tr]
      five_tiers_range [OF score_liquidez_tier score_relacionamentos_tier
        score_tendencias_tier score_atividade_tier score_risco_tier]
    unfolding Let_def
    by (intro conjI score_liquidez_tier score_relacionamentos_tier
        score_tendencias_tier score_atividade_tier score_risco_tier) blast+
qed (rule score_liquidez_ladder score_relacionamentos_ladder score_tendencias_ladder
    score_atividade_ladder score_risco_ladder)+

theorem score_santander_tiers_witness:
  "filter (\<lambda>r. ID r = 1) [\<lparr>ID = 1, VL_SLDO = 100, VL_FATU = 500\<rparr>,
                             \<lparr>ID = 1, VL_SLDO = 100, VL_FATU = 500\<rparr>] \<noteq> []
   \<and> calcular_score_santander
        [\<lparr>ID = 1, VL_SLDO = 100, VL_FATU = 500\<rparr>, \<lparr>ID = 1, VL_SLDO = 100, VL_FATU = 500\<rparr>]
        [\<lparr>ID_PGTO = 1, ID_RCBE = 2, VL = 10\<rparr>] 1
       = Inr (50, PyDict [(''Liquidez'', 20), (''Relacionamentos'', 0), (str_Tendencias, 5),
                          (''Atividade'', 5), (''Risco'', 20), (''Total'', 50)])"
proof -
  let ?df = "[\<lparr>ID = 1, VL_SLDO = 100, VL_FATU = 500\<rparr>, \<lparr>ID = 1, VL_SLDO = 100, VL_FATU = 500\<rparr>]"
  let ?tr = "[\<lparr>ID_PGTO = 1, ID_RCBE = 2, VL = 10\<rparr>]"
  have ne: "filter (\<lambda>r. ID r = 1) ?df \<noteq> []" by simp
  have dados: "filter (\<lambda>r. ID r = 1) ?df = ?df" by simp
  have saldos: "map VL_SLDO ?df = [100, 100]" by simp
  have pag: "filter (\<lambda>t. ID_PGTO t = 1) ?tr = ?tr" by simp
  have rec: "filter (\<lambda>t. ID_RCBE t = 1) ?tr = []" by simp
  have ends: "last [100, 100 :: real] = 100" "hd [100, 100 :: real] = 100" by simp_all
  have cv: "cv_saldo [100, 100] = Num 0"
    by (simp add: cv_saldo_def series_mean_def series_std_def py_ne_def)
  have burn: "burn_rate (diff_dropna [100, 100]) = Num 0"
    by (simp add: burn_rate_def)
  have l: "score_liquidez 100 (runway 100 (Num 0)) = 20"
    by (simp add: score_liquidez_def runway_def py_gt_def)
  have r: "score_relacionamentos (length (remdups (map ID_RCBE ?tr @ map ID_PGTO [])))
             ((calculate_hhi (groupby_sum ID_RCBE ?tr) + calculate_hhi (groupby_sum ID_PGTO [])) / 2)
           = 0"
    by (simp add: score_relacionamentos_def)
  have t: "score_tendencias (100 - 100) 100 (Num 0) = 5"
    by (simp add: score_tendencias_def)
  have a: "score_atividade (sum_list (map VL ?tr) + sum_list (map VL [])) (length ?df) = 5"
    by (simp add: score_atividade_def)
  have k: "score_risco 100 (Num 0) (Num 0) = 20"
    by (simp add: score_risco_def)
  have "calcular_score_santander ?df ?tr 1
        = Inr (20 + 0 + 5 + 5 + 20,
               PyDict [(''Liquidez'', 20), (''Relacionamentos'', 0), (str_Tendencias, 5),
                       (''Atividade'', 5), (''Risco'', 20), (''Total'', 20 + 0 + 5 + 5 + 20)])"
    using score_santander_tiers [of 1 ?df ?tr, THEN conjunct1, rule_format, OF ne]
    unfolding Let_def dados saldos pag rec ends cv burn l r t a k
    by (rule conjunct1)
  with ne show ?thesis by simp
qed

text \<open>
  C9. A row of the analysed table is in the "ideal for credit" cohort exactly when it
  belongs to the latest month of the table and its health score is at least its
  \<^verbatim>\<open>q25_health\<close>, its risk score is below its \<^verbatim>\<open>q75_risk\<close>, its runway is at least 1,
  its stress flag is 0, its volume growth is positive and its life stage is "Madura" or
  "Desenvolvimento". It is in the "high risk" cohort exactly when it belongs to the latest
  month and its health score is at most \<^verbatim>\<open>q25_health\<close>, its risk score is at least
  \<^verbatim>\<open>q75_risk\<close>, its runway is below 3 or missing, its stress flag is 1, its volume
  growth is negative and its life stage is "Declinio" or "Declinio Persistente". Each is
  a conjunction; the only disjunction between the listed predicates is the one on the
  runway.
\<close>

theorem cohort_membership:
  "(r \<in> set (empresas_ideais df) \<longleftrightarrow>
      r \<in> set df \<and> (\<forall>r' \<in> set df. MES r' \<le> MES r)
      \<and> py_ge (score_saude_model_0_100_lgbm r) (q25_health r)
      \<and> py_lt (score_dependencia_risco_0_100 r) (q75_risk r)
      \<and> py_ge (runway_meses r) (Num 1)
      \<and> py_eq (flag_stress_caixa r) (Num 0)
      \<and> py_gt (grow_volume_total_mes r) (Num 0)
      \<and> (estado_maturidade_hard r = ''Madura''
          \<or> estado_maturidade_hard r = ''Desenvolvimento''))
   \<and> (r \<in> set (empresas_perigosas df) \<longleftrightarrow>
      r \<in> set df \<and> (\<forall>r' \<in> set df. MES r' \<le> MES r)
      \<and> py_le (score_saude_model_0_100_lgbm r) (q25_health r)
      \<and> py_ge (score_dependencia_risco_0_100 r) (q75_risk r)
      \<and> (py_lt (runway_meses r) (Num 3) \<or> runway_meses r = NaN)
      \<and> py_eq (flag_stress_caixa r) (Num 1)
      \<and> py_lt (grow_volume_total_mes r) (Num 0)
      \<and> (estado_maturidade_hard r = str_Declinio
          \<or> estado_maturidade_hard r = str_Declinio_Persistente))"
  unfolding empresas_ideais_def empresas_perigosas_def
  by (simp add: ultimo_mes_data_set isna_def conj_ac)


theorem cohort_membership_witness:
  "\<lparr>MES = 2, score_saude_model_0_100_lgbm = Num 70, q25_health = Num 40,
     score_dependencia_risco_0_100 = Num 30, q75_risk = Num 60, runway_meses = PInf,
     flag_stress_caixa = Num 0, grow_volume_total_mes = Num 5,
     estado_maturidade_hard = ''Madura''\<rparr>
   \<in> set (empresas_ideais
       [\<lparr>MES = 1, score_saude_model_0_100_lgbm = Num 90, q25_health = Num 40,
          score_dependencia_risco_0_100 = Num 10, q75_risk = Num 60, runway_meses = Num 9,
          flag_stress_caixa = Num 0, grow_volume_total_mes = Num 1,
          estado_maturidade_hard = ''Madura''\<rparr>,
        \<lparr>MES = 2, score_saude_model_0_100_lgbm = Num 70, q25_health = Num 40,
          score_dependencia_risco_0_100 = Num 30, q75_risk = Num 60, runway_meses = PInf,
          flag_stress_caixa = Num 0, grow_volume_total_mes = Num 5,
          estado_maturidade_hard = ''Madura''\<rparr>,
        \<lparr>MES = 2, score_saude_model_0_100_lgbm = Num 20, q25_health = Num 40,
          score_dependencia_risco_0_100 = Num 80, q75_risk = Num 60, runway_meses = NaN,
          flag_stress_caixa = Num 1, grow_volume_total_mes = Num (- 3),
          estado_maturidade_hard = str_Declinio\<rparr>])
   \<and> \<lparr>MES = 2, score_saude_model_0_100_lgbm = Num 20, q25_health = Num 40,
       score_dependencia_risco_0_100 = Num 80, q75_risk = Num 60, runway_meses = NaN,
       flag_stress_caixa = Num 1, grow_volume_total_mes = Num (- 3),
       estado_maturidade_hard = str_Declinio\<rparr>
   \<in> set (empresas_perigosas
       [\<lparr>MES = 1, score_saude_model_0_100_lgbm = Num 90, q25_health = Num 40,
          score_dependencia_risco_0_100 = Num 10, q75_risk = Num 60, runway_meses = Num 9,
          flag_stress_caixa = Num 0, grow_volume_total_mes = Num 1,
          estado_maturidade_hard = ''Madura''\<rparr>,
        \<lparr>MES = 2, score_saude_model_0_100_lgbm = Num 70, q25_health = Num 40,
          score_dependencia_risco_0_100 = Num 30, q75_risk = Num 60, runway_meses = PInf,
          flag_stress_caixa = Num 0, grow_volume_total_mes = Num 5,
          estado_maturidade_hard = ''Madura''\<rparr>,
        \<lparr>MES = 2, score_saude_model_0_100_lgbm = Num 20, q25_health = Num 40,
          score_dependencia_risco_0_100 = Num 80, q75_risk = Num 60, runway_meses = NaN,
          flag_stress_caixa = Num 1, grow_volume_total_mes = Num (- 3),
          estado_maturidade_hard = str_Declinio\<rparr>])"
proof -
  let ?a = "\<lparr>MES = 1, score_saude_model_0_100_lgbm = Num 90, q25_health = Num 40,
          score_dependencia_risco_0_100 = Num 10, q75_risk = Num 60, runway_meses = Num 9,
          flag_stress_caixa = Num 0, grow_volume_total_mes = Num 1,
          estado_maturidade_hard = ''Madura''\<rparr>"
  let ?b = "\<lparr>MES = 2, score_saude_model_0_100_lgbm = Num 70, q25_health = Num 40,
          score_dependencia_risco_0_100 = Num 30, q75_risk = Num 60, runway_meses = PInf,
          flag_stress_caixa = Num 0, grow_volume_total_mes = Num 5,
          estado_maturidade_hard = ''Madura''\<rparr>"
  let ?c = "\<lparr>MES = 2, score_saude_model_0_100_lgbm = Num 20, q25_health = Num 40,
          score_dependencia_risco_0_100 = Num 80, q75_risk = Num 60, runway_meses = NaN,
          flag_stress_caixa = Num 1, grow_volume_total_mes = Num (- 3),
          estado_maturidade_hard = str_Declinio\<rparr>"
  have b: "?b \<in> set (empresas_ideais [?a, ?b, ?c])"
    using cohort_membership [of ?b "[?a, ?b, ?c]", THEN conjunct1]
    by (simp add: py_ge_def py_le_def py_gt_def)
  have c: "?c \<in> set (empresas_perigosas [?a, ?b, ?c])"
    using cohort_membership [of ?c "[?a, ?b, ?c]", THEN conjunct2]
    by (simp add: py_ge_def py_le_def py_gt_def)
  from b c show ?thesis by (rule conjI)
qed

end
